theory Spec2Isabelle
  imports Main "HOL-Library.Word"
begin

section \<open>Shallow embedding of package pkcs12 (pkcs12sm.go)\<close>

subsection \<open>Bytes, strings, errors and the ways a Go call can end\<close>

type_synonym byte = "8 word"
type_synonym bytes = "byte list"

text \<open>
  A Go \<^verbatim>\<open>[]byte\<close> is a list of bytes; the nil slice and the empty slice both have
  length 0 and are the empty list. A Go \<^verbatim>\<open>string\<close> is a sequence of bytes as well
  (UTF-8 for text), which is what an Isabelle \<^typ>\<open>string\<close> is. The conversions
  \<^verbatim>\<open>[]byte(s)\<close> and \<^verbatim>\<open>string(b)\<close> copy the bytes.
\<close>

definition bytes_of_string :: "string \<Rightarrow> bytes" where
  "bytes_of_string s = map (\<lambda>c. of_nat (of_char c)) s"

definition string_of_bytes :: "bytes \<Rightarrow> string" where
  "string_of_bytes b = map (\<lambda>w. char_of (unat w)) b"

text \<open>
  Error values: \<^verbatim>\<open>errors.New(msg)\<close>, the sentinel \<^verbatim>\<open>pkcs12.ErrIncorrectPassword\<close>
  of golang.org/x/crypto/pkcs12, and the errors the imported packages produce.
\<close>

datatype error =
    errors_New string
  | pkcs12_ErrIncorrectPassword
  | lib_error string

text \<open>\<^verbatim>\<open>errors.Is(err, target)\<close> on errors that wrap nothing is equality.\<close>

definition errors_Is :: "error \<Rightarrow> error \<Rightarrow> bool" where
  "errors_Is err target = (err = target)"

text \<open>The two Chinese messages of the source, as the UTF-8 bytes of the literals.\<close>

definition msg_password_error :: string where
  "msg_password_error =
     [CHR 0xE5, CHR 0xAF, CHR 0x86, CHR 0xE7, CHR 0xA0, CHR 0x81,
      CHR 0xE9, CHR 0x94, CHR 0x99, CHR 0xE8, CHR 0xAF, CHR 0xAF]"

definition msg_file_format_error :: string where
  "msg_file_format_error =
     [CHR 0xE6, CHR 0x96, CHR 0x87, CHR 0xE4, CHR 0xBB, CHR 0xB6,
      CHR 0xE6, CHR 0xA0, CHR 0xBC, CHR 0xE5, CHR 0xBC, CHR 0x8F,
      CHR 0xE9, CHR 0x94, CHR 0x99, CHR 0xE8, CHR 0xAF, CHR 0xAF]"

text \<open>Run-time panics that the source can raise.\<close>

datatype panic =
    nil_pointer_dereference
  | type_assertion_failed
  | index_out_of_range
  | slice_bounds_out_of_range

text \<open>
  A call either returns its results, or panics, or ends the process:
  \<^verbatim>\<open>log.Fatal(err)\<close> prints \<^verbatim>\<open>err\<close> and calls \<^verbatim>\<open>os.Exit(1)\<close>, so nothing after it runs.
\<close>

datatype 'a outcome =
    Return 'a
  | Panic panic
  | Exit error

subsection \<open>Data model\<close>

text \<open>\<^verbatim>\<open>asn1.RawValue\<close> and \<^verbatim>\<open>asn1.ObjectIdentifier\<close> (a \<^verbatim>\<open>[]int\<close>) of encoding/asn1.\<close>

record asn1_RawValue =
  Class :: int
  Tag :: int
  IsCompound :: bool
  Bytes :: bytes
  FullBytes :: bytes

record privateKeyContent =
  OID1 :: "int list"
  OID2 :: "int list"
  Content :: asn1_RawValue

record publicKeyContent =
  OID :: "int list"
  Content :: asn1_RawValue

record smPdu =
  Version :: int
  PrivContent :: privateKeyContent
  PubContent :: publicKeyContent

text \<open>
  The key and certificate types of the packages sm2 and x509. The public key type
  \<^verbatim>\<open>sm2.PublicKey\<close> is the parameter \<open>'pub\<close>. The field \<^verbatim>\<open>PublicKey\<close> of a
  certificate is an \<^verbatim>\<open>interface{}\<close>: it holds a \<^verbatim>\<open>*sm2.PublicKey\<close> (a pointer,
  \<open>None\<close> when nil) or a value of another dynamic type.
\<close>

datatype 'pub any_public_key =
    sm2_PublicKey_ptr "'pub option"
  | other_public_key

record 'pub x509_Certificate =
  PublicKey :: "'pub any_public_key"
  Raw :: bytes

record 'pub sm2_PrivateKey =
  PublicKey :: 'pub
  D :: int

record pem_Block =
  Type :: string
  Headers :: "(string \<times> string) list"
  Bytes :: bytes

text \<open>
  The dynamic result of \<^verbatim>\<open>GetPrivateKeyFromBytes\<close> (an \<^verbatim>\<open>interface{}\<close>): an SM2
  private key or the RSA private key \<open>'rsa\<close> of \<^verbatim>\<open>x509.ParsePKCS1PrivateKey\<close>.
\<close>

datatype ('pub, 'rsa) any_private_key =
    sm2_PrivateKey_ptr "'pub sm2_PrivateKey"
  | rsa_PrivateKey_ptr 'rsa

subsection \<open>The imported packages, as parameters\<close>

text \<open>
  The functions of the imported packages that pkcs12sm.go calls. None of them is defined
  in pkcs12sm.go, so each is a field of the environment \<open>E\<close> that every function of the
  embedding takes; a theorem about all \<open>E\<close> holds whatever these packages compute.
  \<^item> \<open>sm3_New\<close>, \<open>sm3_Write\<close>, \<open>sm3_Sum\<close>: the hash object of package sm3, of type
    \<open>'hash\<close>: \<^verbatim>\<open>sm3.New()\<close>, the object after \<^verbatim>\<open>Write(p)\<close> (whose results \<^verbatim>\<open>(n, err)\<close>
    the source drops), and the slice that \<^verbatim>\<open>Sum(b)\<close> returns.
  \<^item> \<open>sm4_Sm4Cbc iv key data mode\<close>: \<^verbatim>\<open>sm4.Init(iv, key).Sm4Cbc(data, mode)\<close>, with
    its results \<^verbatim>\<open>(out, err)\<close> as a sum (package sm4).
  \<^item> \<open>base64_Decode dst src\<close>: the contents of \<^verbatim>\<open>dst\<close> after
    \<^verbatim>\<open>base64.StdEncoding.Decode(dst, src)\<close>, whose results \<^verbatim>\<open>(n, err)\<close> the source drops.
  \<^item> \<open>base64_DecodeString\<close>: \<^verbatim>\<open>base64.StdEncoding.DecodeString\<close>.
  \<^item> \<open>asn1_Unmarshal b\<close>: \<^verbatim>\<open>asn1.Unmarshal(b, sm)\<close> for \<^verbatim>\<open>sm\<close> a new \<^verbatim>\<open>smPdu\<close>: the
    error, or the filled structure and the bytes left over.
  \<^item> \<open>x509_ParseCertificate\<close>, \<open>x509_ParsePKCS1PrivateKey\<close> (package x509),
    \<open>pkcs12_ToPEM\<close> (golang.org/x/crypto/pkcs12).
  \<^item> \<open>pem_Decode\<close>: \<^verbatim>\<open>pem.Decode\<close>, whose block is nil (\<open>None\<close>) when no PEM data is
    found.
  \<^item> \<open>os_Open\<close>, \<open>ioutil_ReadAll\<close>: the file system; \<^verbatim>\<open>ReadAll\<close> returns the data
    read and possibly an error.
\<close>

record ('pub, 'rsa, 'file, 'hash) env =
  sm3_New :: 'hash
  sm3_Write :: "'hash \<Rightarrow> bytes \<Rightarrow> 'hash"
  sm3_Sum :: "'hash \<Rightarrow> bytes \<Rightarrow> bytes"
  sm4_Sm4Cbc :: "bytes \<Rightarrow> bytes \<Rightarrow> bytes \<Rightarrow> bool \<Rightarrow> error + bytes"
  base64_Decode :: "bytes \<Rightarrow> bytes \<Rightarrow> bytes"
  base64_DecodeString :: "string \<Rightarrow> error + bytes"
  asn1_Unmarshal :: "bytes \<Rightarrow> error + smPdu \<times> bytes"
  x509_ParseCertificate :: "bytes \<Rightarrow> error + 'pub x509_Certificate"
  x509_ParsePKCS1PrivateKey :: "bytes \<Rightarrow> error + 'rsa"
  pkcs12_ToPEM :: "bytes \<Rightarrow> string \<Rightarrow> error + pem_Block list"
  pem_Decode :: "bytes \<Rightarrow> pem_Block option \<times> bytes"
  os_Open :: "string \<Rightarrow> error + 'file"
  ioutil_ReadAll :: "'file \<Rightarrow> bytes \<times> error option"

text \<open>
  The SM3 digest of a byte string is what \<^verbatim>\<open>Sum(nil)\<close> returns on a new hash object
  after one \<^verbatim>\<open>Write\<close> of the string. Two properties of package sm3 that theorems below
  take as hypotheses: writing in two pieces hashes the concatenation, and \<^verbatim>\<open>Sum(nil)\<close>
  returns 32 bytes.
\<close>

definition sm3_digest :: "('pub, 'rsa, 'file, 'hash) env \<Rightarrow> bytes \<Rightarrow> bytes" where
  "sm3_digest E m = sm3_Sum E (sm3_Write E (sm3_New E) m) []"

definition sm3_streams :: "('pub, 'rsa, 'file, 'hash) env \<Rightarrow> bool" where
  "sm3_streams E =
     (\<forall>a b. sm3_Sum E (sm3_Write E (sm3_Write E (sm3_New E) a) b) []
              = sm3_Sum E (sm3_Write E (sm3_New E) (a @ b)) [])"

definition sm3_size_32 :: "('pub, 'rsa, 'file, 'hash) env \<Rightarrow> bool" where
  "sm3_size_32 E = (\<forall>h. length (sm3_Sum E h []) = 32)"

text \<open>\<^verbatim>\<open>new(big.Int).SetBytes(b)\<close>: \<^verbatim>\<open>b\<close> read as a big-endian unsigned integer.\<close>

definition big_Int_SetBytes :: "bytes \<Rightarrow> int" where
  "big_Int_SetBytes b = foldl (\<lambda>acc x. acc * 256 + uint x) 0 b"

subsection \<open>KDF (lines 70-77)\<close>

definition KDF :: "('pub, 'rsa, 'file, 'hash) env \<Rightarrow> bytes \<Rightarrow> bytes" where
  "KDF E z =
     (let ct = [0, 0, 0, 1];
          sm3 = sm3_New E;
          sm3 = sm3_Write E sm3 z;
          sm3 = sm3_Write E sm3 ct;
          h = sm3_Sum E sm3 []
      in h)"

subsection \<open>DecryptSm2Key (lines 82-106)\<close>

text \<open>
  \<^verbatim>\<open>encoding\<close> is made as a zeroed buffer, filled by the base64 decoder when the length
  is neither 32 nor 48, and then assigned \<^verbatim>\<open>encryptedData\<close> (line 88). The slices
  \<^verbatim>\<open>h[:16]\<close> and \<^verbatim>\<open>h[16:]\<close> panic when \<^verbatim>\<open>h\<close> has fewer than 16 bytes. An error of the
  cipher reaches \<^verbatim>\<open>log.Fatal\<close> (line 98). The big integer \<^verbatim>\<open>d\<close> is computed and dropped.
\<close>

definition DecryptSm2Key :: "('pub, 'rsa, 'file, 'hash) env \<Rightarrow> string \<Rightarrow> bytes \<Rightarrow> bytes outcome" where
  "DecryptSm2Key E password encryptedData =
     (if length encryptedData \<ge> 32 \<and> length encryptedData \<le> 64 then
        (let encoding = replicate (length encryptedData) 0;
             encoding = (if length encryptedData \<noteq> 32 \<and> length encryptedData \<noteq> 48
                         then base64_Decode E encoding encryptedData else encoding);
             encoding = encryptedData;
             h = KDF E (bytes_of_string password)
         in if length h < 16 then Panic slice_bounds_out_of_range
            else
              (let iv = take 16 h;
                   key = drop 16 h
               in case sm4_Sm4Cbc E iv key encoding False of
                    Inl err \<Rightarrow> Exit err
                  | Inr out \<Rightarrow> (let d = big_Int_SetBytes out in Return out)))
      else Return [])"

subsection \<open>DecodeSm2 (lines 36-64)\<close>

text \<open>
  The results \<^verbatim>\<open>(privateKey, certificate, err)\<close> are a sum: the error, or the key and
  the certificate. A certificate that does not parse reaches \<^verbatim>\<open>log.Fatal\<close> (line 53),
  so the \<^verbatim>\<open>return\<close> of line 54 never runs. The type assertion of line 58 has the
  one-result form, which panics on another dynamic type; \<^verbatim>\<open>*pub\<close> on line 60
  dereferences the pointer.
\<close>

definition DecodeSm2 ::
  "('pub, 'rsa, 'file, 'hash) env \<Rightarrow> bytes \<Rightarrow> string
     \<Rightarrow> (error + 'pub sm2_PrivateKey \<times> 'pub x509_Certificate) outcome" where
  "DecodeSm2 E smData password =
     (case asn1_Unmarshal E smData of
        Inl err \<Rightarrow> Return (Inl err)
      | Inr (sm, trailing) \<Rightarrow>
          if length trailing \<noteq> 0
          then Return (Inl (errors_New ''go-pkcs12: trailing data found''))
          else
            (case DecryptSm2Key E password
                    (asn1_RawValue.Bytes (privateKeyContent.Content (PrivContent sm))) of
               Panic p \<Rightarrow> Panic p
             | Exit e \<Rightarrow> Exit e
             | Return dBytes \<Rightarrow>
                 if length dBytes = 0 then Return (Inl (errors_New msg_password_error))
                 else
                   (case x509_ParseCertificate E
                           (asn1_RawValue.Bytes (publicKeyContent.Content (PubContent sm))) of
                      Inl err \<Rightarrow> Exit err
                    | Inr cer \<Rightarrow>
                        (case x509_Certificate.PublicKey cer of
                           other_public_key \<Rightarrow> Panic type_assertion_failed
                         | sm2_PublicKey_ptr None \<Rightarrow> Panic nil_pointer_dereference
                         | sm2_PublicKey_ptr (Some pub) \<Rightarrow>
                             Return (Inr (\<lparr>sm2_PrivateKey.PublicKey = pub,
                                           D = big_Int_SetBytes dBytes\<rparr>, cer))))))"

text \<open>
  The two stages of \<open>DecodeSm2\<close>, each the text of its lines: the container decoder
  (lines 37-44), which gives the parsed structure or the error that \<open>DecodeSm2\<close>
  returns, and the decryption and key reconstruction (lines 46-63). Lemma
  \<open>DecodeSm2_stages\<close> below shows that \<open>DecodeSm2\<close> is the first followed by the second.
\<close>

definition DecodeSm2_container :: "('pub, 'rsa, 'file, 'hash) env \<Rightarrow> bytes \<Rightarrow> error + smPdu" where
  "DecodeSm2_container E smData =
     (case asn1_Unmarshal E smData of
        Inl err \<Rightarrow> Inl err
      | Inr (sm, trailing) \<Rightarrow>
          if length trailing \<noteq> 0 then Inl (errors_New ''go-pkcs12: trailing data found'')
          else Inr sm)"

definition DecodeSm2_keys ::
  "('pub, 'rsa, 'file, 'hash) env \<Rightarrow> smPdu \<Rightarrow> string
     \<Rightarrow> (error + 'pub sm2_PrivateKey \<times> 'pub x509_Certificate) outcome" where
  "DecodeSm2_keys E sm password =
     (case DecryptSm2Key E password
             (asn1_RawValue.Bytes (privateKeyContent.Content (PrivContent sm))) of
        Panic p \<Rightarrow> Panic p
      | Exit e \<Rightarrow> Exit e
      | Return dBytes \<Rightarrow>
          if length dBytes = 0 then Return (Inl (errors_New msg_password_error))
          else
            (case x509_ParseCertificate E
                    (asn1_RawValue.Bytes (publicKeyContent.Content (PubContent sm))) of
               Inl err \<Rightarrow> Exit err
             | Inr cer \<Rightarrow>
                 (case x509_Certificate.PublicKey cer of
                    other_public_key \<Rightarrow> Panic type_assertion_failed
                  | sm2_PublicKey_ptr None \<Rightarrow> Panic nil_pointer_dereference
                  | sm2_PublicKey_ptr (Some pub) \<Rightarrow>
                      Return (Inr (\<lparr>sm2_PrivateKey.PublicKey = pub,
                                    D = big_Int_SetBytes dBytes\<rparr>, cer)))))"

text \<open>
  What a reader of one DER value does with a longer input: \<open>asn1.Unmarshal\<close> parses the
  value at the front of its input and returns the bytes after it, so an input it
  consumes entirely is parsed the same way when more bytes follow. This is a property of
  encoding/asn1, stated here as a predicate on the environment.
\<close>

definition asn1_reads_prefix :: "('pub, 'rsa, 'file, 'hash) env \<Rightarrow> bool" where
  "asn1_reads_prefix E =
     (\<forall>b sm rest. asn1_Unmarshal E b = Inr (sm, []) \<longrightarrow> asn1_Unmarshal E (b @ rest) = Inr (sm, rest))"

subsection \<open>GetPrivateKeyFromSm2File (lines 108-124)\<close>

definition GetPrivateKeyFromSm2File ::
  "('pub, 'rsa, 'file, 'hash) env \<Rightarrow> string \<Rightarrow> string \<Rightarrow> (error + 'pub sm2_PrivateKey) outcome" where
  "GetPrivateKeyFromSm2File E file password =
     (case os_Open E file of
        Inl err \<Rightarrow> Return (Inl err)
      | Inr opened \<Rightarrow>
          (case ioutil_ReadAll E opened of
             (smData, Some err) \<Rightarrow> Return (Inl err)
           | (smData, None) \<Rightarrow>
               (case base64_DecodeString E (string_of_bytes smData) of
                  Inl err \<Rightarrow> Return (Inl err)
                | Inr b \<Rightarrow>
                    (case DecodeSm2 E b password of
                       Panic p \<Rightarrow> Panic p
                     | Exit e \<Rightarrow> Exit e
                     | Return (Inl err) \<Rightarrow> Return (Inl err)
                     | Return (Inr (privateKey, certificate)) \<Rightarrow> Return (Inr privateKey)))))"

subsection \<open>GetPrivateKeyFromBytes (lines 126-152)\<close>

text \<open>
  \<^verbatim>\<open>blocks[0]\<close> panics on an empty slice. \<^verbatim>\<open>log.Println\<close> only prints, and printing is
  not part of the model.
\<close>

definition GetPrivateKeyFromBytes ::
  "('pub, 'rsa, 'file, 'hash) env \<Rightarrow> bytes \<Rightarrow> string \<Rightarrow> string
     \<Rightarrow> (error + ('pub, 'rsa) any_private_key) outcome" where
  "GetPrivateKeyFromBytes E data ext password =
     (if ext = ''.sm2'' then
        (case base64_DecodeString E (string_of_bytes data) of
           Inl err \<Rightarrow> Return (Inl err)
         | Inr b \<Rightarrow>
             (case DecodeSm2 E b password of
                Panic p \<Rightarrow> Panic p
              | Exit e \<Rightarrow> Exit e
              | Return (Inl err) \<Rightarrow> Return (Inl err)
              | Return (Inr (privateKey, certificate)) \<Rightarrow>
                  Return (Inr (sm2_PrivateKey_ptr privateKey))))
      else if ext = ''.pfx'' then
        (case pkcs12_ToPEM E data password of
           Inl err \<Rightarrow>
             if errors_Is err pkcs12_ErrIncorrectPassword
             then Return (Inl (errors_New msg_password_error))
             else Return (Inl err)
         | Inr blocks \<Rightarrow>
             (case blocks of
                [] \<Rightarrow> Panic index_out_of_range
              | block0 # _ \<Rightarrow>
                  (case x509_ParsePKCS1PrivateKey E (pem_Block.Bytes block0) of
                     Inl err \<Rightarrow> Return (Inl err)
                   | Inr privateKey \<Rightarrow> Return (Inr (rsa_PrivateKey_ptr privateKey)))))
      else Return (Inl (errors_New msg_file_format_error)))"

subsection \<open>GetPublicKeyFromSM2File (lines 155-171)\<close>

text \<open>
  The error of \<^verbatim>\<open>ioutil.ReadAll\<close> is assigned and never read (line 161). \<^verbatim>\<open>block.Bytes\<close>
  on line 164 dereferences \<^verbatim>\<open>block\<close>, which is nil when \<^verbatim>\<open>pem.Decode\<close> finds no PEM
  data. The function returns the pointer of the type assertion as it is.
\<close>

definition GetPublicKeyFromSM2File ::
  "('pub, 'rsa, 'file, 'hash) env \<Rightarrow> string \<Rightarrow> (error + 'pub option) outcome" where
  "GetPublicKeyFromSM2File E file =
     (case os_Open E file of
        Inl err \<Rightarrow> Return (Inl err)
      | Inr opened \<Rightarrow>
          (let (cerData, err) = ioutil_ReadAll E opened;
               (block, rest) = pem_Decode E cerData
           in case block of
                None \<Rightarrow> Panic nil_pointer_dereference
              | Some blk \<Rightarrow>
                  (case x509_ParseCertificate E (pem_Block.Bytes blk) of
                     Inl err \<Rightarrow> Return (Inl err)
                   | Inr certificate \<Rightarrow>
                       (case x509_Certificate.PublicKey certificate of
                          other_public_key \<Rightarrow> Panic type_assertion_failed
                        | sm2_PublicKey_ptr publicKey \<Rightarrow> Return (Inr publicKey)))))"

subsection \<open>A test environment\<close>

text \<open>
  Small stand-ins for the imported packages, on which the theorems below are run at
  concrete inputs. The container format of \<open>test_Unmarshal\<close> is a version byte, then
  the private-key blob and the certificate blob, each after one length byte. A
  certificate of \<open>test_ParseCertificate\<close> is a kind byte (1: an SM2 key, 2: a key of
  another type) and two coordinate bytes. The hash object is the list of the bytes
  written so far, and \<open>test_digest\<close> pads or cuts it to 32 bytes. The cipher \<open>test_Sm4Cbc\<close> wants a 16-byte IV,
  a 16-byte key and whole blocks, and hands back the data it was given.
\<close>

definition test_container :: "byte \<Rightarrow> bytes \<Rightarrow> bytes \<Rightarrow> smPdu" where
  "test_container v priv cert =
     \<lparr>Version = uint v,
      PrivContent = \<lparr>OID1 = [1, 2, 156, 10197, 6, 1, 4, 2, 1], OID2 = [1, 2, 156, 10197, 1, 104],
                     Content = \<lparr>Class = 0, Tag = 4, IsCompound = False,
                                asn1_RawValue.Bytes = priv, FullBytes = 4 # of_nat (length priv) # priv\<rparr>\<rparr>,
      PubContent = \<lparr>OID = [1, 2, 156, 10197, 6, 1, 4, 2, 1],
                    Content = \<lparr>Class = 0, Tag = 4, IsCompound = False,
                               asn1_RawValue.Bytes = cert, FullBytes = 4 # of_nat (length cert) # cert\<rparr>\<rparr>\<rparr>"

definition test_Unmarshal :: "bytes \<Rightarrow> error + smPdu \<times> bytes" where
  "test_Unmarshal b =
     (case b of
        v # n # r \<Rightarrow>
          (if length r < unat n then Inl (lib_error ''asn1: syntax error: data truncated'')
           else (case drop (unat n) r of
                   m # r' \<Rightarrow>
                     (if length r' < unat m then Inl (lib_error ''asn1: syntax error: data truncated'')
                      else Inr (test_container v (take (unat n) r) (take (unat m) r'), drop (unat m) r'))
                 | [] \<Rightarrow> Inl (lib_error ''asn1: syntax error: data truncated'')))
      | _ \<Rightarrow> Inl (lib_error ''asn1: syntax error: data truncated''))"

text \<open>The test container with version 1 that holds the two blobs.\<close>

definition test_smData :: "bytes \<Rightarrow> bytes \<Rightarrow> bytes" where
  "test_smData priv cert = 1 # of_nat (length priv) # priv @ of_nat (length cert) # cert"

definition test_ParseCertificate :: "bytes \<Rightarrow> error + (int \<times> int) x509_Certificate" where
  "test_ParseCertificate c =
     (case c of
        [t, x, y] \<Rightarrow>
          (if t = 1 then Inr \<lparr>x509_Certificate.PublicKey = sm2_PublicKey_ptr (Some (uint x, uint y)), Raw = c\<rparr>
           else if t = 2 then Inr \<lparr>x509_Certificate.PublicKey = other_public_key, Raw = c\<rparr>
           else Inl (lib_error ''x509: malformed certificate''))
      | _ \<Rightarrow> Inl (lib_error ''x509: malformed certificate''))"

definition test_digest :: "bytes \<Rightarrow> bytes" where
  "test_digest m = take 32 (m @ replicate 32 0)"

definition test_Sm4Cbc :: "bytes \<Rightarrow> bytes \<Rightarrow> bytes \<Rightarrow> bool \<Rightarrow> error + bytes" where
  "test_Sm4Cbc iv key data mode =
     (if length iv = 16 \<and> length key = 16 \<and> length data mod 16 = 0 then Inr data
      else Inl (lib_error ''sm4: invalid length''))"

text \<open>
  A decoder for the standard base64 alphabet with \<open>=\<close> padding, writing the decoded
  bytes to the front of the destination buffer, and a 44-byte blob: the base64 text of
  32 bytes 01.
\<close>

definition b64_value :: "byte \<Rightarrow> nat option" where
  "b64_value c =
     (let n = unat c in
      if 65 \<le> n \<and> n \<le> 90 then Some (n - 65)
      else if 97 \<le> n \<and> n \<le> 122 then Some (n - 71)
      else if 48 \<le> n \<and> n \<le> 57 then Some (n + 4)
      else if n = 43 then Some 62
      else if n = 47 then Some 63
      else None)"

fun test_b64 :: "bytes \<Rightarrow> bytes" where
  "test_b64 (a # b # c # d # rest) =
     (case (b64_value a, b64_value b) of
        (Some x, Some y) \<Rightarrow>
          (case b64_value c of
             None \<Rightarrow> [of_nat (x * 4 + y div 16)]
           | Some z \<Rightarrow>
               (case b64_value d of
                  None \<Rightarrow> [of_nat (x * 4 + y div 16), of_nat ((y mod 16) * 16 + z div 4)]
                | Some w \<Rightarrow>
                    of_nat (x * 4 + y div 16) # of_nat ((y mod 16) * 16 + z div 4)
                      # of_nat ((z mod 4) * 64 + w) # test_b64 rest))
      | _ \<Rightarrow> [])"
| "test_b64 _ = []"

definition test_base64_Decode :: "bytes \<Rightarrow> bytes \<Rightarrow> bytes" where
  "test_base64_Decode dst src = (let out = test_b64 src in out @ drop (length out) dst)"

definition blob44 :: bytes where
  "blob44 = bytes_of_string ''AQEBAQEBAQEBAQEBAQEBAQEBAQEBAQEBAQEBAQEBAQE=''"

definition test_pem_Decode :: "bytes \<Rightarrow> pem_Block option \<times> bytes" where
  "test_pem_Decode b =
     (if take 10 b = bytes_of_string ''-----BEGIN''
      then (Some \<lparr>Type = ''CERTIFICATE'', Headers = [], pem_Block.Bytes = drop 10 b\<rparr>, [])
      else (None, b))"

definition test_os_Open :: "string \<Rightarrow> error + bytes" where
  "test_os_Open name =
     (if name = ''cert.pem'' then Inr (bytes_of_string ''not a PEM file'')
      else Inl (lib_error ''open: no such file or directory''))"

definition test_env :: "(int \<times> int, unit, bytes, bytes) env" where
  "test_env =
     \<lparr>sm3_New = [],
      sm3_Write = (\<lambda>h p. h @ p),
      sm3_Sum = (\<lambda>h b. b @ test_digest h),
      sm4_Sm4Cbc = test_Sm4Cbc,
      base64_Decode = test_base64_Decode,
      base64_DecodeString = (\<lambda>s. Inr (bytes_of_string s)),
      asn1_Unmarshal = test_Unmarshal,
      x509_ParseCertificate = test_ParseCertificate,
      x509_ParsePKCS1PrivateKey = (\<lambda>b. Inl (lib_error ''x509: failed to parse private key'')),
      pkcs12_ToPEM = (\<lambda>b p. Inl pkcs12_ErrIncorrectPassword),
      pem_Decode = test_pem_Decode,
      os_Open = test_os_Open,
      ioutil_ReadAll = (\<lambda>f. (f, None))\<rparr>"

section \<open>Properties\<close>

subsection \<open>Facts about the test environment and unfolded forms of the functions\<close>

lemma test_env_sel:
  "sm3_New test_env = []"
  "sm3_Write test_env = (\<lambda>h p. h @ p)"
  "sm3_Sum test_env = (\<lambda>h b. b @ test_digest h)"
  "sm4_Sm4Cbc test_env = test_Sm4Cbc"
  "base64_Decode test_env = test_base64_Decode"
  "asn1_Unmarshal test_env = test_Unmarshal"
  "x509_ParseCertificate test_env = test_ParseCertificate"
  "pem_Decode test_env = test_pem_Decode"
  "os_Open test_env = test_os_Open"
  "ioutil_ReadAll test_env = (\<lambda>f. (f, None))"
  by (simp_all add: test_env_def)

lemma test_digest_length: "length (test_digest m) = 32"
  by (simp add: test_digest_def min_def)

lemma test_env_sm3: "sm3_streams test_env" "sm3_size_32 test_env"
  by (simp_all add: sm3_streams_def sm3_size_32_def test_env_sel test_digest_length)

lemma KDF_length: "sm3_size_32 E \<Longrightarrow> length (KDF E z) = 32"
  by (simp add: KDF_def sm3_size_32_def)

lemma KDF_decoder: "KDF (E\<lparr>base64_Decode := f\<rparr>) z = KDF E z"
  by (simp add: KDF_def)

lemma DecryptSm2Key_eq:
  "DecryptSm2Key E password blob =
     (if 32 \<le> length blob \<and> length blob \<le> 64 then
        (if length (KDF E (bytes_of_string password)) < 16 then Panic slice_bounds_out_of_range
         else (case sm4_Sm4Cbc E (take 16 (KDF E (bytes_of_string password)))
                      (drop 16 (KDF E (bytes_of_string password))) blob False of
                 Inl err \<Rightarrow> Exit err | Inr out \<Rightarrow> Return out))
      else Return [])"
  by (auto simp add: DecryptSm2Key_def Let_def split: sum.splits)

lemma KDF_test_env_length: "length (KDF test_env z) = 32"
  by (simp add: KDF_length test_env_sm3)

lemma blob44_length: "length blob44 = 44"
  by (simp add: blob44_def bytes_of_string_def)

lemma blob44_decoded:
  "test_base64_Decode (replicate 44 0) blob44 = replicate 32 1 @ replicate 12 0"
  by code_simp

lemma DecodeSm2_stages:
  "DecodeSm2 E smData password =
     (case DecodeSm2_container E smData of
        Inl err \<Rightarrow> Return (Inl err)
      | Inr sm \<Rightarrow> DecodeSm2_keys E sm password)"
  by (simp add: DecodeSm2_def DecodeSm2_container_def DecodeSm2_keys_def
      split: sum.splits prod.splits)

lemma DecodeSm2_container_Inl:
  "(\<exists>err. DecodeSm2_container E smData = Inl err) \<longleftrightarrow>
     ((\<exists>err. asn1_Unmarshal E smData = Inl err)
      \<or> (\<exists>sm trailing. asn1_Unmarshal E smData = Inr (sm, trailing) \<and> trailing \<noteq> []))"
  by (auto simp add: DecodeSm2_container_def split: sum.splits prod.splits if_splits)

lemma DecodeSm2_container_Inr:
  "DecodeSm2_container E smData = Inr sm \<longleftrightarrow> asn1_Unmarshal E smData = Inr (sm, [])"
  by (auto simp add: DecodeSm2_container_def split: sum.splits prod.splits if_splits)

lemma test_Unmarshal_prefix:
  "test_Unmarshal b = Inr (sm, []) \<Longrightarrow> test_Unmarshal (b @ rest) = Inr (sm, rest)"
  by (auto simp add: test_Unmarshal_def split: list.splits if_splits)

lemma test_env_reads_prefix: "asn1_reads_prefix test_env"
  by (simp add: asn1_reads_prefix_def test_env_sel test_Unmarshal_prefix)

lemma test_Unmarshal_smData:
  "length priv < 256 \<Longrightarrow> length cert < 256 \<Longrightarrow>
   test_Unmarshal (test_smData priv cert @ rest) = Inr (test_container 1 priv cert, rest)"
  by (simp add: test_Unmarshal_def test_smData_def unat_of_nat)

lemma test_container_blobs:
  "asn1_RawValue.Bytes (privateKeyContent.Content (PrivContent (test_container v priv cert))) = priv"
  "asn1_RawValue.Bytes (publicKeyContent.Content (PubContent (test_container v priv cert))) = cert"
  by (simp_all add: test_container_def)

lemma DecryptSm2Key_test_env:
  "DecryptSm2Key test_env password (replicate 32 1) = Return (replicate 32 1)"
  "DecryptSm2Key test_env password (replicate 33 1) = Exit (lib_error ''sm4: invalid length'')"
  by (simp_all add: DecryptSm2Key_eq KDF_test_env_length test_env_sel test_Sm4Cbc_def)

lemma big_Int_SetBytes_snoc:
  "big_Int_SetBytes (xs @ [x]) = big_Int_SetBytes xs * 256 + uint x"
  by (simp add: big_Int_SetBytes_def)

lemma big_Int_SetBytes_big_endian:
  "big_Int_SetBytes b = (\<Sum>i<length b. uint (b ! i) * 256 ^ (length b - 1 - i))"
proof (induction b rule: rev_induct)
  case Nil
  show ?case by (simp add: big_Int_SetBytes_def)
next
  case (snoc x xs)
  have "(\<Sum>i<length xs. uint ((xs @ [x]) ! i) * 256 ^ (length (xs @ [x]) - 1 - i))
        = (\<Sum>i<length xs. (uint (xs ! i) * 256 ^ (length xs - 1 - i)) * 256)"
  proof (rule sum.cong)
    fix i assume "i \<in> {..<length xs}"
    then have i: "i < length xs" by simp
    then have "length xs - i = Suc (length xs - 1 - i)" by arith
    with i show "uint ((xs @ [x]) ! i) * 256 ^ (length (xs @ [x]) - 1 - i)
                 = (uint (xs ! i) * 256 ^ (length xs - 1 - i)) * 256"
      by (simp add: nth_append)
  qed simp
  then show ?case
    using snoc.IH by (simp add: big_Int_SetBytes_snoc sum_distrib_right)
qed

lemma DecodeSm2_keys_Inr:
  "DecodeSm2_keys E sm password = Return (Inr (priv, cer)) \<longleftrightarrow>
     (\<exists>dBytes pub.
        DecryptSm2Key E password
          (asn1_RawValue.Bytes (privateKeyContent.Content (PrivContent sm))) = Return dBytes
        \<and> dBytes \<noteq> []
        \<and> x509_ParseCertificate E
            (asn1_RawValue.Bytes (publicKeyContent.Content (PubContent sm))) = Inr cer
        \<and> x509_Certificate.PublicKey cer = sm2_PublicKey_ptr (Some pub)
        \<and> priv = \<lparr>sm2_PrivateKey.PublicKey = pub, D = big_Int_SetBytes dBytes\<rparr>)"
  by (auto simp add: DecodeSm2_keys_def
      split: outcome.splits sum.splits any_public_key.splits option.splits if_splits)

subsection \<open>The key derivation function\<close>

text \<open>
  C1. For every byte string \<open>z\<close>, \<open>KDF z\<close> is the SM3 digest of \<open>z\<close> followed by the
  four bytes 00 00 00 01, given that writing to the hash in two pieces hashes the
  concatenation: it is the one \<open>Sum(nil)\<close> of a new hash object after the two writes. It
  is 32 bytes long when \<open>Sum(nil)\<close> returns 32 bytes, it is a value (the function has no
  failing result), and equal inputs give equal outputs.
\<close>

theorem KDF_single_digest:
  "(sm3_streams E \<longrightarrow> KDF E z = sm3_digest E (z @ [0, 0, 0, 1]))
   \<and> KDF E z = sm3_Sum E (sm3_Write E (sm3_Write E (sm3_New E) z) [0, 0, 0, 1]) []
   \<and> (sm3_size_32 E \<longrightarrow> length (KDF E z) = 32)
   \<and> (\<forall>z'. z' = z \<longrightarrow> KDF E z' = KDF E z)"
  by (simp add: KDF_def sm3_digest_def sm3_streams_def sm3_size_32_def)

theorem KDF_single_digest_witness:
  "sm3_streams test_env \<and> sm3_size_32 test_env
   \<and> KDF test_env [1, 2, 3] = test_digest [1, 2, 3, 0, 0, 0, 1]
   \<and> length (KDF test_env [1, 2, 3]) = 32"
  using KDF_single_digest [of test_env "[1, 2, 3]"]
  by (simp add: test_env_sm3 sm3_digest_def test_env_sel test_digest_length)

subsection \<open>The key decryptor\<close>

text \<open>
  C2. For every password and every blob of 32 to 64 bytes, \<open>DecryptSm2Key\<close> takes the
  KDF of the bytes of the password, uses the first 16 bytes of the 32-byte digest as the
  IV and the last 16 as the key, and runs the cipher on the blob with that IV and key
  and the mode flag \<open>False\<close> (the decrypting direction); its result is the cipher's
  output.
\<close>

theorem DecryptSm2Key_in_range:
  assumes "sm3_size_32 E"
    and "32 \<le> length blob" and "length blob \<le> 64"
  shows "\<exists>h iv key. h = KDF E (bytes_of_string password)
           \<and> length h = 32 \<and> iv = take 16 h \<and> key = drop 16 h
           \<and> length iv = 16 \<and> length key = 16 \<and> h = iv @ key
           \<and> DecryptSm2Key E password blob =
               (case sm4_Sm4Cbc E iv key blob False of
                  Inl err \<Rightarrow> Exit err | Inr out \<Rightarrow> Return out)"
  using assms by (simp add: DecryptSm2Key_eq KDF_length)

theorem DecryptSm2Key_in_range_witness:
  "sm3_size_32 test_env
   \<and> 32 \<le> length (replicate 32 (1::byte)) \<and> length (replicate 32 (1::byte)) \<le> 64
   \<and> DecryptSm2Key test_env ''test123'' (replicate 32 1) = Return (replicate 32 1)"
proof -
  have d: "sm3_size_32 test_env"
    by (rule test_env_sm3)
  have l: "32 \<le> length (replicate 32 (1::byte))" "length (replicate 32 (1::byte)) \<le> 64"
    by simp_all
  from DecryptSm2Key_in_range [OF d l, of "''test123''"]
  have "DecryptSm2Key test_env ''test123'' (replicate 32 1) = Return (replicate 32 1)"
    by (auto simp add: test_env_sel test_Sm4Cbc_def)
  with d show ?thesis by simp
qed

text \<open>
  C3. For every password and every blob shorter than 32 bytes or longer than 64,
  \<open>DecryptSm2Key\<close> returns the empty (nil) slice: it neither panics nor ends the
  process. Blobs of exactly 32 and of exactly 64 bytes are accepted: they reach the
  cipher, whose output is the result.
\<close>

theorem DecryptSm2Key_out_of_range:
  "(length blob < 32 \<or> 64 < length blob \<longrightarrow> DecryptSm2Key E password blob = Return [])
   \<and> (sm3_size_32 E \<and> (length blob = 32 \<or> length blob = 64) \<longrightarrow>
        DecryptSm2Key E password blob =
          (case sm4_Sm4Cbc E (take 16 (KDF E (bytes_of_string password)))
                  (drop 16 (KDF E (bytes_of_string password))) blob False of
             Inl err \<Rightarrow> Exit err | Inr out \<Rightarrow> Return out))"
  by (auto simp add: DecryptSm2Key_eq KDF_length)

theorem DecryptSm2Key_out_of_range_witness:
  "length (replicate 31 (1::byte)) < 32 \<and> 64 < length (replicate 65 (1::byte))
   \<and> sm3_size_32 test_env
   \<and> length (replicate 32 (1::byte)) = 32 \<and> length (replicate 64 (1::byte)) = 64
   \<and> DecryptSm2Key test_env ''test123'' (replicate 31 1) = Return []
   \<and> DecryptSm2Key test_env ''test123'' (replicate 65 1) = Return []
   \<and> DecryptSm2Key test_env ''test123'' (replicate 32 1) = Return (replicate 32 1)
   \<and> DecryptSm2Key test_env ''test123'' (replicate 64 1) = Return (replicate 64 1)"
proof -
  have d: "sm3_size_32 test_env"
    by (rule test_env_sm3)
  have c: "test_Sm4Cbc (take 16 (KDF test_env z)) (drop 16 (KDF test_env z)) (replicate 32 1) False
             = Inr (replicate 32 1)"
          "test_Sm4Cbc (take 16 (KDF test_env z)) (drop 16 (KDF test_env z)) (replicate 64 1) False
             = Inr (replicate 64 1)" for z
    by (simp_all add: test_Sm4Cbc_def KDF_test_env_length)
  from d c
    DecryptSm2Key_out_of_range [of "replicate 31 1" test_env "''test123''"]
    DecryptSm2Key_out_of_range [of "replicate 65 1" test_env "''test123''"]
    DecryptSm2Key_out_of_range [of "replicate 32 1" test_env "''test123''"]
    DecryptSm2Key_out_of_range [of "replicate 64 1" test_env "''test123''"]
  show ?thesis by (simp add: test_env_sel)
qed

text \<open>
  C4. The buffer that \<open>base64.StdEncoding.Decode\<close> fills never reaches the cipher:
  line 88 assigns the original blob to \<open>encoding\<close>, so the result of \<open>DecryptSm2Key\<close>
  is the same whatever the decoder computes. At the 44-byte blob \<open>blob44\<close>, whose base64
  decoding is 32 bytes 01, a cipher that hands back its input returns the 44 original
  bytes.
\<close>

theorem DecryptSm2Key_base64_unused:
  "DecryptSm2Key (E\<lparr>base64_Decode := f\<rparr>) password blob = DecryptSm2Key E password blob
   \<and> length blob44 = 44
   \<and> base64_Decode test_env (replicate 44 0) blob44 = replicate 32 1 @ replicate 12 0
   \<and> DecryptSm2Key (test_env\<lparr>sm4_Sm4Cbc := \<lambda>iv key data mode. Inr data\<rparr>)
         ''test123'' blob44 = Return blob44"
  by (simp add: DecryptSm2Key_eq KDF_decoder KDF_def blob44_length blob44_decoded test_env_sel
      test_digest_length)

subsection \<open>The container decoder\<close>

text \<open>
  C5. For every input, the container decoder of \<open>DecodeSm2\<close> (lines 37-44) fails exactly
  when \<open>asn1.Unmarshal\<close> cannot parse the structure or leaves bytes over, and
  \<open>DecodeSm2\<close> then returns that error; otherwise the input was consumed entirely and
  \<open>DecodeSm2\<close> goes on to the key stage. In particular, when \<open>asn1.Unmarshal\<close> reads a
  value from the front of its input, one more byte after a valid container gives the
  error "go-pkcs12: trailing data found".
\<close>

theorem DecodeSm2_container_errors:
  "((\<exists>err. DecodeSm2_container E smData = Inl err) \<longleftrightarrow>
      ((\<exists>err. asn1_Unmarshal E smData = Inl err)
       \<or> (\<exists>sm trailing. asn1_Unmarshal E smData = Inr (sm, trailing) \<and> trailing \<noteq> [])))
   \<and> (\<forall>err. DecodeSm2_container E smData = Inl err \<longrightarrow>
          DecodeSm2 E smData password = Return (Inl err))
   \<and> (\<forall>sm. DecodeSm2_container E smData = Inr sm \<longrightarrow>
          asn1_Unmarshal E smData = Inr (sm, [])
          \<and> DecodeSm2 E smData password = DecodeSm2_keys E sm password)
   \<and> (asn1_reads_prefix E \<and> (\<exists>sm. DecodeSm2_container E smData = Inr sm) \<longrightarrow>
          DecodeSm2_container E (smData @ [x]) = Inl (errors_New ''go-pkcs12: trailing data found'')
          \<and> DecodeSm2 E (smData @ [x]) password
              = Return (Inl (errors_New ''go-pkcs12: trailing data found'')))"
proof (intro conjI allI impI)
  show "(\<exists>err. DecodeSm2_container E smData = Inl err) \<longleftrightarrow>
      ((\<exists>err. asn1_Unmarshal E smData = Inl err)
       \<or> (\<exists>sm trailing. asn1_Unmarshal E smData = Inr (sm, trailing) \<and> trailing \<noteq> []))"
    by (rule DecodeSm2_container_Inl)
next
  fix err assume "DecodeSm2_container E smData = Inl err"
  then show "DecodeSm2 E smData password = Return (Inl err)"
    by (simp add: DecodeSm2_stages)
next
  fix sm assume "DecodeSm2_container E smData = Inr sm"
  then show "asn1_Unmarshal E smData = Inr (sm, [])"
    by (simp add: DecodeSm2_container_Inr)
next
  fix sm assume "DecodeSm2_container E smData = Inr sm"
  then show "DecodeSm2 E smData password = DecodeSm2_keys E sm password"
    by (simp add: DecodeSm2_stages)
next
  assume a: "asn1_reads_prefix E \<and> (\<exists>sm. DecodeSm2_container E smData = Inr sm)"
  then obtain sm where "asn1_Unmarshal E smData = Inr (sm, [])"
    by (auto simp add: DecodeSm2_container_Inr)
  with a have "asn1_Unmarshal E (smData @ [x]) = Inr (sm, [x])"
    by (simp add: asn1_reads_prefix_def)
  then show c: "DecodeSm2_container E (smData @ [x]) = Inl (errors_New ''go-pkcs12: trailing data found'')"
    by (simp add: DecodeSm2_container_def)
  show "DecodeSm2 E (smData @ [x]) password = Return (Inl (errors_New ''go-pkcs12: trailing data found''))"
    by (simp add: DecodeSm2_stages c)
qed

theorem DecodeSm2_container_errors_witness:
  "asn1_reads_prefix test_env
   \<and> DecodeSm2_container test_env (test_smData (replicate 32 1) [1, 7, 9])
       = Inr (test_container 1 (replicate 32 1) [1, 7, 9])
   \<and> DecodeSm2_container test_env (test_smData (replicate 32 1) [1, 7, 9] @ [255])
       = Inl (errors_New ''go-pkcs12: trailing data found'')
   \<and> DecodeSm2 test_env (test_smData (replicate 32 1) [1, 7, 9] @ [255]) ''test123''
       = Return (Inl (errors_New ''go-pkcs12: trailing data found''))"
proof -
  have u: "asn1_Unmarshal test_env (test_smData (replicate 32 1) [1, 7, 9])
             = Inr (test_container 1 (replicate 32 1) [1, 7, 9], [])"
    using test_Unmarshal_smData [of "replicate 32 1" "[1, 7, 9]" "[]"]
    by (simp add: test_env_sel)
  then have c: "DecodeSm2_container test_env (test_smData (replicate 32 1) [1, 7, 9])
             = Inr (test_container 1 (replicate 32 1) [1, 7, 9])"
    by (simp add: DecodeSm2_container_def)
  with test_env_reads_prefix
    DecodeSm2_container_errors [of test_env "test_smData (replicate 32 1) [1, 7, 9]" "''test123''" 255]
  show ?thesis by simp
qed

subsection \<open>Failures that do not come back as errors\<close>

text \<open>
  C6. Not every failure of the decoding is returned as an error: an error of the cipher
  reaches \<open>log.Fatal\<close> in \<open>DecryptSm2Key\<close> (line 98) and ends the process, also when
  \<open>DecodeSm2\<close> is the caller, and a certificate that does not parse reaches
  \<open>log.Fatal\<close> in \<open>DecodeSm2\<close> (line 53) and ends the process.
\<close>

theorem decode_failures_exit_process:
  "(sm3_size_32 E \<and> 32 \<le> length blob \<and> length blob \<le> 64
      \<and> sm4_Sm4Cbc E (take 16 (KDF E (bytes_of_string password)))
            (drop 16 (KDF E (bytes_of_string password))) blob False = Inl err
      \<longrightarrow> DecryptSm2Key E password blob = Exit err)
   \<and> (asn1_Unmarshal E smData = Inr (sm, [])
      \<and> DecryptSm2Key E password
            (asn1_RawValue.Bytes (privateKeyContent.Content (PrivContent sm))) = Exit err
      \<longrightarrow> DecodeSm2 E smData password = Exit err)
   \<and> (asn1_Unmarshal E smData = Inr (sm, [])
      \<and> DecryptSm2Key E password
            (asn1_RawValue.Bytes (privateKeyContent.Content (PrivContent sm))) = Return dBytes
      \<and> dBytes \<noteq> []
      \<and> x509_ParseCertificate E
            (asn1_RawValue.Bytes (publicKeyContent.Content (PubContent sm))) = Inl err
      \<longrightarrow> DecodeSm2 E smData password = Exit err)"
  by (simp add: DecryptSm2Key_eq KDF_length DecodeSm2_def)

theorem decode_failures_exit_process_witness:
  "sm3_size_32 test_env
   \<and> DecryptSm2Key test_env ''test123'' (replicate 33 1) = Exit (lib_error ''sm4: invalid length'')
   \<and> DecodeSm2 test_env (test_smData (replicate 33 1) [1, 7, 9]) ''test123''
       = Exit (lib_error ''sm4: invalid length'')
   \<and> DecodeSm2 test_env (test_smData (replicate 32 1) [9, 9, 9]) ''test123''
       = Exit (lib_error ''x509: malformed certificate'')"
proof -
  have d: "sm3_size_32 test_env"
    by (rule test_env_sm3)
  have c: "sm4_Sm4Cbc test_env (take 16 (KDF test_env (bytes_of_string ''test123'')))
            (drop 16 (KDF test_env (bytes_of_string ''test123''))) (replicate 33 1) False
           = Inl (lib_error ''sm4: invalid length'')"
    by (simp add: test_env_sel test_Sm4Cbc_def KDF_test_env_length)
  have u1: "asn1_Unmarshal test_env (test_smData (replicate 33 1) [1, 7, 9])
             = Inr (test_container 1 (replicate 33 1) [1, 7, 9], [])"
    using test_Unmarshal_smData [of "replicate 33 1" "[1, 7, 9]" "[]"]
    by (simp add: test_env_sel)
  have u2: "asn1_Unmarshal test_env (test_smData (replicate 32 1) [9, 9, 9])
             = Inr (test_container 1 (replicate 32 1) [9, 9, 9], [])"
    using test_Unmarshal_smData [of "replicate 32 1" "[9, 9, 9]" "[]"]
    by (simp add: test_env_sel)
  have p: "x509_ParseCertificate test_env [9, 9, 9] = Inl (lib_error ''x509: malformed certificate'')"
    by (simp add: test_env_sel test_ParseCertificate_def)
  have e1: "DecryptSm2Key test_env ''test123'' (replicate 33 1) = Exit (lib_error ''sm4: invalid length'')"
    using decode_failures_exit_process [of test_env "replicate 33 1" "''test123''"
        "lib_error ''sm4: invalid length''"] d c
    by simp
  have e2: "DecodeSm2 test_env (test_smData (replicate 33 1) [1, 7, 9]) ''test123''
       = Exit (lib_error ''sm4: invalid length'')"
    using decode_failures_exit_process [of test_env _ "''test123''" "lib_error ''sm4: invalid length''"
        "test_smData (replicate 33 1) [1, 7, 9]" "test_container 1 (replicate 33 1) [1, 7, 9]"] u1 e1
    by (simp add: test_container_blobs)
  have e3: "DecodeSm2 test_env (test_smData (replicate 32 1) [9, 9, 9]) ''test123''
       = Exit (lib_error ''x509: malformed certificate'')"
    using decode_failures_exit_process [of test_env _ "''test123''" "lib_error ''x509: malformed certificate''"
        "test_smData (replicate 32 1) [9, 9, 9]" "test_container 1 (replicate 32 1) [9, 9, 9]"
        "replicate 32 1"] u2 p
    by (simp add: test_container_blobs DecryptSm2Key_test_env)
  from d e1 e2 e3 show ?thesis by simp
qed


text \<open>
  C7. The key stage of \<open>DecodeSm2\<close> (lines 46-63), once the decryption has given a
  non-empty scalar, does not return an error for a bad certificate: when the certificate
  does not parse the process ends in \<open>log.Fatal\<close> (line 53), and when the certificate's
  public key is not a \<open>*sm2.PublicKey\<close> the type assertion of line 58 panics.
\<close>

theorem DecodeSm2_keys_failures:
  "(asn1_Unmarshal E smData = Inr (sm, []) \<longrightarrow>
      DecodeSm2 E smData password = DecodeSm2_keys E sm password)
   \<and> (DecryptSm2Key E password
          (asn1_RawValue.Bytes (privateKeyContent.Content (PrivContent sm))) = Return dBytes
      \<and> dBytes \<noteq> [] \<longrightarrow>
        (\<forall>err. x509_ParseCertificate E
                  (asn1_RawValue.Bytes (publicKeyContent.Content (PubContent sm))) = Inl err
           \<longrightarrow> DecodeSm2_keys E sm password = Exit err)
        \<and> (\<forall>cer. x509_ParseCertificate E
                  (asn1_RawValue.Bytes (publicKeyContent.Content (PubContent sm))) = Inr cer
              \<and> x509_Certificate.PublicKey cer = other_public_key
           \<longrightarrow> DecodeSm2_keys E sm password = Panic type_assertion_failed))"
  by (simp add: DecodeSm2_stages DecodeSm2_container_def DecodeSm2_keys_def)

theorem DecodeSm2_keys_failures_witness:
  "DecodeSm2 test_env (test_smData (replicate 32 1) [9, 9, 9]) ''test123''
     = DecodeSm2_keys test_env (test_container 1 (replicate 32 1) [9, 9, 9]) ''test123''
   \<and> DecodeSm2_keys test_env (test_container 1 (replicate 32 1) [9, 9, 9]) ''test123''
       = Exit (lib_error ''x509: malformed certificate'')
   \<and> DecodeSm2_keys test_env (test_container 1 (replicate 32 1) [2, 0, 0]) ''test123''
       = Panic type_assertion_failed"
proof -
  have u: "asn1_Unmarshal test_env (test_smData (replicate 32 1) [9, 9, 9])
             = Inr (test_container 1 (replicate 32 1) [9, 9, 9], [])"
    using test_Unmarshal_smData [of "replicate 32 1" "[9, 9, 9]" "[]"]
    by (simp add: test_env_sel)
  have p1: "x509_ParseCertificate test_env [9, 9, 9] = Inl (lib_error ''x509: malformed certificate'')"
    by (simp add: test_env_sel test_ParseCertificate_def)
  have p2: "x509_ParseCertificate test_env [2, 0, 0]
              = Inr \<lparr>x509_Certificate.PublicKey = other_public_key, Raw = [2, 0, 0]\<rparr>"
    by (simp add: test_env_sel test_ParseCertificate_def)
  have k1: "DecodeSm2 test_env (test_smData (replicate 32 1) [9, 9, 9]) ''test123''
              = DecodeSm2_keys test_env (test_container 1 (replicate 32 1) [9, 9, 9]) ''test123''"
       and k2: "DecodeSm2_keys test_env (test_container 1 (replicate 32 1) [9, 9, 9]) ''test123''
              = Exit (lib_error ''x509: malformed certificate'')"
    using DecodeSm2_keys_failures [of test_env "test_smData (replicate 32 1) [9, 9, 9]"
        "test_container 1 (replicate 32 1) [9, 9, 9]" "''test123''" "replicate 32 1"] u p1
    by (simp_all add: test_container_blobs DecryptSm2Key_test_env)
  have k3: "DecodeSm2_keys test_env (test_container 1 (replicate 32 1) [2, 0, 0]) ''test123''
              = Panic type_assertion_failed"
    using DecodeSm2_keys_failures [of test_env smData
        "test_container 1 (replicate 32 1) [2, 0, 0]" "''test123''" "replicate 32 1"] p2
    by (simp add: test_container_blobs DecryptSm2Key_test_env)
  from k1 k2 k3 show ?thesis by simp
qed

subsection \<open>The reconstructed key\<close>

text \<open>
  C8. \<open>DecodeSm2\<close> succeeds exactly when the container parses with nothing left over,
  the decryption returns a non-empty byte string, the certificate parses and its public
  key is a non-nil \<open>*sm2.PublicKey\<close>. The private key returned then holds that public
  key of the certificate, and its \<open>D\<close> is the decrypted bytes read as a big-endian
  unsigned integer. Nothing else is required for success: the scalar and the public
  key are not compared.
\<close>

theorem DecodeSm2_success:
  "DecodeSm2 E smData password = Return (Inr (priv, cer)) \<longleftrightarrow>
     (\<exists>sm dBytes pub.
        asn1_Unmarshal E smData = Inr (sm, [])
        \<and> DecryptSm2Key E password
            (asn1_RawValue.Bytes (privateKeyContent.Content (PrivContent sm))) = Return dBytes
        \<and> dBytes \<noteq> []
        \<and> x509_ParseCertificate E
            (asn1_RawValue.Bytes (publicKeyContent.Content (PubContent sm))) = Inr cer
        \<and> x509_Certificate.PublicKey cer = sm2_PublicKey_ptr (Some pub)
        \<and> priv = \<lparr>sm2_PrivateKey.PublicKey = pub, D = big_Int_SetBytes dBytes\<rparr>
        \<and> D priv = (\<Sum>i<length dBytes. uint (dBytes ! i) * 256 ^ (length dBytes - 1 - i)))"
proof -
  have "DecodeSm2 E smData password = Return (Inr (priv, cer)) \<longleftrightarrow>
          (\<exists>sm. asn1_Unmarshal E smData = Inr (sm, [])
                \<and> DecodeSm2_keys E sm password = Return (Inr (priv, cer)))"
    by (auto simp add: DecodeSm2_stages DecodeSm2_container_def
        split: sum.splits prod.splits if_splits)
  then show ?thesis
    by (auto simp add: DecodeSm2_keys_Inr big_Int_SetBytes_big_endian)
qed

theorem DecodeSm2_success_witness:
  "DecodeSm2 test_env (test_smData (replicate 32 1) [1, 7, 9]) ''test123''
     = Return (Inr (\<lparr>sm2_PrivateKey.PublicKey = (7, 9), D = big_Int_SetBytes (replicate 32 1)\<rparr>,
                    \<lparr>x509_Certificate.PublicKey = sm2_PublicKey_ptr (Some (7, 9)), Raw = [1, 7, 9]\<rparr>))"
proof -
  have u: "asn1_Unmarshal test_env (test_smData (replicate 32 1) [1, 7, 9])
             = Inr (test_container 1 (replicate 32 1) [1, 7, 9], [])"
    using test_Unmarshal_smData [of "replicate 32 1" "[1, 7, 9]" "[]"]
    by (simp add: test_env_sel)
  have p: "x509_ParseCertificate test_env [1, 7, 9]
             = Inr \<lparr>x509_Certificate.PublicKey = sm2_PublicKey_ptr (Some (7, 9)), Raw = [1, 7, 9]\<rparr>"
    by (simp add: test_env_sel test_ParseCertificate_def)
  have "\<exists>sm dBytes pub.
        asn1_Unmarshal test_env (test_smData (replicate 32 1) [1, 7, 9]) = Inr (sm, [])
        \<and> DecryptSm2Key test_env ''test123''
            (asn1_RawValue.Bytes (privateKeyContent.Content (PrivContent sm))) = Return dBytes
        \<and> dBytes \<noteq> []
        \<and> x509_ParseCertificate test_env
            (asn1_RawValue.Bytes (publicKeyContent.Content (PubContent sm)))
            = Inr \<lparr>x509_Certificate.PublicKey = sm2_PublicKey_ptr (Some (7, 9)), Raw = [1, 7, 9]\<rparr>
        \<and> x509_Certificate.PublicKey
             \<lparr>x509_Certificate.PublicKey = sm2_PublicKey_ptr (Some (7, 9)), Raw = [1, 7, 9]\<rparr>
            = sm2_PublicKey_ptr (Some pub)
        \<and> \<lparr>sm2_PrivateKey.PublicKey = (7, 9), D = big_Int_SetBytes (replicate 32 1)\<rparr>
            = \<lparr>sm2_PrivateKey.PublicKey = pub, D = big_Int_SetBytes dBytes\<rparr>
        \<and> D \<lparr>sm2_PrivateKey.PublicKey = (7, 9), D = big_Int_SetBytes (replicate 32 1)\<rparr>
            = (\<Sum>i<length dBytes. uint (dBytes ! i) * 256 ^ (length dBytes - 1 - i))"
    apply (rule exI [of _ "test_container 1 (replicate 32 1) [1, 7, 9]"])
    apply (rule exI [of _ "replicate 32 1"])
    apply (rule exI [of _ "(7, 9)"])
    apply (simp add: u p test_container_blobs DecryptSm2Key_test_env)
    apply (rule big_Int_SetBytes_big_endian [of "replicate 32 1", simplified])
    done
  then show ?thesis
    by (rule DecodeSm2_success [THEN iffD2])
qed

subsection \<open>The format dispatcher\<close>

text \<open>
  C9. For every format hint other than ".sm2" and ".pfx", \<open>GetPrivateKeyFromBytes\<close>
  returns the error of line 150 (the "file format error" message); the result is the
  same in every environment, so it depends on no parser or decoder.
\<close>

theorem GetPrivateKeyFromBytes_unsupported:
  "ext \<noteq> ''.sm2'' \<and> ext \<noteq> ''.pfx'' \<longrightarrow>
     GetPrivateKeyFromBytes E data ext password = Return (Inl (errors_New msg_file_format_error))
     \<and> GetPrivateKeyFromBytes E' data ext password = GetPrivateKeyFromBytes E data ext password"
  by (simp add: GetPrivateKeyFromBytes_def)

theorem GetPrivateKeyFromBytes_unsupported_witness:
  "''.xyz'' \<noteq> ''.sm2'' \<and> ''.xyz'' \<noteq> ''.pfx''
   \<and> GetPrivateKeyFromBytes test_env (test_smData (replicate 32 1) [1, 7, 9]) ''.xyz'' ''test123''
       = Return (Inl (errors_New msg_file_format_error))"
  using GetPrivateKeyFromBytes_unsupported [of "''.xyz''" test_env
      "test_smData (replicate 32 1) [1, 7, 9]" "''test123''" test_env]
  by simp

subsection \<open>Reading a public key from a file\<close>

text \<open>
  C10. When the file opens and \<open>pem.Decode\<close> finds no PEM block in what was read,
  \<open>GetPublicKeyFromSM2File\<close> panics on the nil block (line 164) instead of returning an
  error, whether or not \<open>ioutil.ReadAll\<close> reported an error; such a file exists in the
  test environment.
\<close>

theorem GetPublicKeyFromSM2File_nil_block:
  "os_Open E file = Inr opened \<and> ioutil_ReadAll E opened = (cerData, readErr)
   \<and> fst (pem_Decode E cerData) = None
   \<longrightarrow> GetPublicKeyFromSM2File E file = Panic nil_pointer_dereference"
  by (auto simp add: GetPublicKeyFromSM2File_def split: prod.splits)

theorem GetPublicKeyFromSM2File_nil_block_witness:
  "os_Open test_env ''cert.pem'' = Inr (bytes_of_string ''not a PEM file'')
   \<and> ioutil_ReadAll test_env (bytes_of_string ''not a PEM file'')
       = (bytes_of_string ''not a PEM file'', None)
   \<and> fst (pem_Decode test_env (bytes_of_string ''not a PEM file'')) = None
   \<and> GetPublicKeyFromSM2File test_env ''cert.pem'' = Panic nil_pointer_dereference"
proof -
  have o: "os_Open test_env ''cert.pem'' = Inr (bytes_of_string ''not a PEM file'')"
    by (simp add: test_env_sel test_os_Open_def)
  have r: "ioutil_ReadAll test_env (bytes_of_string ''not a PEM file'')
       = (bytes_of_string ''not a PEM file'', None)"
    by (simp add: test_env_sel)
  have d: "fst (pem_Decode test_env (bytes_of_string ''not a PEM file'')) = None"
    by (simp add: test_env_sel test_pem_Decode_def bytes_of_string_def)
  from o r d GetPublicKeyFromSM2File_nil_block [of test_env "''cert.pem''"
      "bytes_of_string ''not a PEM file''" "bytes_of_string ''not a PEM file''" None]
  show ?thesis by simp
qed


end
